theory Spec2Isabelle
  imports Complex_Main "HOL-Library.AList"
begin

section \<open>Python values, exceptions and the library environment\<close>

text \<open>
  The agents are dynamically typed Python objects: configuration, task payloads and
  attribute overrides are all \<^verbatim>\<open>Dict[str, Any]\<close>. The values that occur are embedded
  in one datatype. Python's \<^verbatim>\<open>int\<close> and \<^verbatim>\<open>float\<close> are both embedded as exact
  rationals (\<open>PNum\<close>): the rounding of binary floating point is not modelled. A
  \<^verbatim>\<open>datetime\<close> is its number of microseconds (\<open>PTime\<close>). A dictionary is an
  association list in insertion order with string keys.
\<close>

datatype pyval =
    PNone
  | PBool bool
  | PNum rat
  | PStr string
  | PTime int
  | PLogger string
  | PList "pyval list"
  | PDict "(string \<times> pyval) list"

type_synonym pydict = "(string \<times> pyval) list"

datatype exc =
    ValueError string
  | RuntimeError string
  | TypeError
  | AttributeError
  | KeyError string
  | ZeroDivisionError
  | Unmodelled

text \<open>
  \<open>Unmodelled\<close> is not a Python exception: it marks the few places where the model does
  not say what Python does (iterating over a string or a list where the code expects a
  dictionary). No theorem below is about such a run.
\<close>

text \<open>
  What the code takes from Python's library is a parameter of the model:
  \<^item> \<open>clock\<close>: \<^verbatim>\<open>datetime.utcnow()\<close> reads the wall clock; \<open>clock env k\<close> is what the
    \<open>k\<close>-th read returns, and the number of reads made so far is threaded through every
    operation;
  \<^item> \<open>isoformat\<close>: the text of \<^verbatim>\<open>datetime.isoformat()\<close>;
  \<^item> \<open>format_2f\<close>: the text of a number under the format \<^verbatim>\<open>:,.2f\<close>;
  \<^item> \<open>str_of\<close>: the text \<^verbatim>\<open>str(v)\<close> that an f-string interpolates for \<^verbatim>\<open>{v}\<close>.
\<close>

record pyenv =
  clock :: "nat \<Rightarrow> int"
  isoformat :: "int \<Rightarrow> string"
  format_2f :: "rat \<Rightarrow> string"
  str_of :: "pyval \<Rightarrow> string"

definition utcnow :: "pyenv \<Rightarrow> nat \<Rightarrow> int \<times> nat" where
  "utcnow env n = (clock env n, Suc n)"

definition total_seconds :: "int \<Rightarrow> rat" where
  "total_seconds d = of_int d / 1000000"

subsection \<open>Dictionary and attribute access\<close>

text \<open>\<^verbatim>\<open>d.get(k, default)\<close> on a value: only a dictionary has the method.\<close>

definition dict_get :: "pydict \<Rightarrow> string \<Rightarrow> pyval \<Rightarrow> pyval" where
  "dict_get d k dflt = (case map_of d k of None \<Rightarrow> dflt | Some v \<Rightarrow> v)"

fun py_get :: "pyval \<Rightarrow> string \<Rightarrow> pyval \<Rightarrow> exc + pyval" where
  "py_get (PDict d) k dflt = Inr (dict_get d k dflt)"
| "py_get _ k dflt = Inl AttributeError"

text \<open>\<^verbatim>\<open>d[k]\<close> on a dictionary raises \<^verbatim>\<open>KeyError\<close> for a missing key.\<close>

definition subscript :: "pydict \<Rightarrow> string \<Rightarrow> exc + pyval" where
  "subscript d k = (case map_of d k of None \<Rightarrow> Inl (KeyError k) | Some v \<Rightarrow> Inr v)"

text \<open>
  An instance is its attribute dictionary. \<^verbatim>\<open>self.k\<close> raises \<^verbatim>\<open>AttributeError\<close> when
  the instance has no such data attribute; \<^verbatim>\<open>self.k = v\<close> replaces the entry or appends
  a new one.
\<close>

definition attr :: "pydict \<Rightarrow> string \<Rightarrow> exc + pyval" where
  "attr self k = (case map_of self k of None \<Rightarrow> Inl AttributeError | Some v \<Rightarrow> Inr v)"

definition set_attr :: "pydict \<Rightarrow> string \<Rightarrow> pyval \<Rightarrow> pydict" where
  "set_attr self k v = AList.update k v self"

text \<open>
  A call \<^verbatim>\<open>self.logger.info(f"...")\<close> or \<^verbatim>\<open>self.logger.debug(f"...")\<close>: the log output is
  not part of the model, but the call fails when \<^verbatim>\<open>self.logger\<close> is not a logger or
  when an attribute that the message reads is missing.
\<close>

definition logger_call :: "pydict \<Rightarrow> string list \<Rightarrow> exc + unit" where
  "logger_call self reads =
     (case map_of self ''logger'' of
        Some (PLogger l) \<Rightarrow>
          (if list_all (\<lambda>k. map_of self k \<noteq> None) reads then Inr () else Inl AttributeError)
      | _ \<Rightarrow> Inl AttributeError)"

subsection \<open>Numbers\<close>

text \<open>
  \<^verbatim>\<open>bool\<close> is a subclass of \<^verbatim>\<open>int\<close>. The operators below are the numeric cases of
  Python's \<^verbatim>\<open>>\<close>, \<^verbatim>\<open><\<close>, \<^verbatim>\<open>+\<close>, \<^verbatim>\<open>-\<close>, \<^verbatim>\<open>*\<close> and \<^verbatim>\<open>/\<close>; with an operand
  that is not a number they raise \<^verbatim>\<open>TypeError\<close>, which is what Python does wherever
  the code below uses them (one operand is a number there).
\<close>

fun py_num :: "pyval \<Rightarrow> rat option" where
  "py_num (PNum r) = Some r"
| "py_num (PBool b) = Some (if b then 1 else 0)"
| "py_num _ = None"

definition py_gt :: "pyval \<Rightarrow> pyval \<Rightarrow> exc + bool" where
  "py_gt a b = (case (py_num a, py_num b) of (Some x, Some y) \<Rightarrow> Inr (x > y) | _ \<Rightarrow> Inl TypeError)"

definition py_lt :: "pyval \<Rightarrow> pyval \<Rightarrow> exc + bool" where
  "py_lt a b = (case (py_num a, py_num b) of (Some x, Some y) \<Rightarrow> Inr (x < y) | _ \<Rightarrow> Inl TypeError)"

definition py_add :: "pyval \<Rightarrow> pyval \<Rightarrow> exc + pyval" where
  "py_add a b =
     (case (py_num a, py_num b) of (Some x, Some y) \<Rightarrow> Inr (PNum (x + y)) | _ \<Rightarrow> Inl TypeError)"

definition py_sub :: "pyval \<Rightarrow> pyval \<Rightarrow> exc + pyval" where
  "py_sub a b =
     (case (py_num a, py_num b) of (Some x, Some y) \<Rightarrow> Inr (PNum (x - y)) | _ \<Rightarrow> Inl TypeError)"

definition py_mul :: "pyval \<Rightarrow> pyval \<Rightarrow> exc + pyval" where
  "py_mul a b =
     (case (py_num a, py_num b) of (Some x, Some y) \<Rightarrow> Inr (PNum (x * y)) | _ \<Rightarrow> Inl TypeError)"

definition py_truediv :: "pyval \<Rightarrow> pyval \<Rightarrow> exc + pyval" where
  "py_truediv a b =
     (case (py_num a, py_num b) of
        (Some x, Some y) \<Rightarrow> (if y = 0 then Inl ZeroDivisionError else Inr (PNum (x / y)))
      | _ \<Rightarrow> Inl TypeError)"

text \<open>\<^verbatim>\<open>len(v)\<close>: strings, lists and dictionaries have a length.\<close>

fun py_len :: "pyval \<Rightarrow> exc + nat" where
  "py_len (PStr s) = Inr (length s)"
| "py_len (PList xs) = Inr (length xs)"
| "py_len (PDict d) = Inr (length d)"
| "py_len _ = Inl TypeError"

section \<open>The base agent (core/base\_agent.py)\<close>

definition BaseAgent_init :: "pyenv \<Rightarrow> string \<Rightarrow> pyval \<Rightarrow> nat \<Rightarrow> pydict \<times> nat" where
  "BaseAgent_init env name config n =
     (let (created, n1) = utcnow env n;
          (active, n2) = utcnow env n1
      in ([(''name'', PStr name),
           (''config'', config),
           (''created_at'', PTime created),
           (''last_active'', PTime active),
           (''status'', PStr ''initialized''),
           (''logger'', PLogger (''agent.'' @ name)),
           (''metrics'', PList [])], n2))"

text \<open>The names every subclass inherits from the body of \<^verbatim>\<open>BaseAgent\<close>.\<close>

definition BaseAgent_names :: "string list" where
  "BaseAgent_names =
     [''__init__'', ''initialize'', ''execute'', ''monitor'', ''record_metric'',
      ''report_metrics'', ''collaborate'', ''receive_message'', ''optimize'', ''__str__'']"

text \<open>
  \<^verbatim>\<open>last_active.isoformat()\<close> needs a \<^verbatim>\<open>datetime\<close>, and so does
  \<^verbatim>\<open>datetime.utcnow() - self.created_at\<close>.
\<close>

fun py_isoformat :: "pyenv \<Rightarrow> pyval \<Rightarrow> exc + pyval" where
  "py_isoformat env (PTime t) = Inr (PStr (isoformat env t))"
| "py_isoformat env _ = Inl AttributeError"

fun datetime_sub :: "int \<Rightarrow> pyval \<Rightarrow> exc + int" where
  "datetime_sub t (PTime c) = Inr (t - c)"
| "datetime_sub t _ = Inl TypeError"

definition BaseAgent_monitor :: "pyenv \<Rightarrow> pydict \<Rightarrow> nat \<Rightarrow> (exc + pydict) \<times> nat" where
  "BaseAgent_monitor env self n =
     (case attr self ''name'' of Inl e \<Rightarrow> (Inl e, n) | Inr name \<Rightarrow>
     (case attr self ''status'' of Inl e \<Rightarrow> (Inl e, n) | Inr status \<Rightarrow>
     (case attr self ''last_active'' of Inl e \<Rightarrow> (Inl e, n) | Inr last_active \<Rightarrow>
     (case py_isoformat env last_active of Inl e \<Rightarrow> (Inl e, n) | Inr iso_text \<Rightarrow>
     (let (now, n1) = utcnow env n in
     (case attr self ''created_at'' of Inl e \<Rightarrow> (Inl e, n1) | Inr created_at \<Rightarrow>
     (case datetime_sub now created_at of Inl e \<Rightarrow> (Inl e, n1) | Inr delta \<Rightarrow>
        (Inr [(''name'', name),
              (''status'', status),
              (''last_active'', iso_text),
              (''uptime'', PNum (total_seconds delta)),
              (''metrics'', PDict [])], n1))))))))"

text \<open>
  \<^verbatim>\<open>record_metric\<close> mutates \<^verbatim>\<open>self.metrics\<close> in place: the model returns the updated
  instance. The metric is built (one clock read) before \<^verbatim>\<open>self.metrics.append\<close> is
  looked up, so the read happens on the failing paths too.
\<close>

definition record_metric ::
  "pyenv \<Rightarrow> pydict \<Rightarrow> string \<Rightarrow> pyval \<Rightarrow> nat \<Rightarrow> (exc + unit) \<times> pydict \<times> nat" where
  "record_metric env self name v n =
     (let (now, n1) = utcnow env n;
          metric = PDict [(''name'', PStr name),
                          (''value'', v),
                          (''timestamp'', PStr (isoformat env now))]
      in case attr self ''metrics'' of
           Inl e \<Rightarrow> (Inl e, self, n1)
         | Inr (PList ms) \<Rightarrow>
             (let self' = set_attr self ''metrics'' (PList (ms @ [metric]))
              in case logger_call self' [] of
                   Inl e \<Rightarrow> (Inl e, self', n1)
                 | Inr u \<Rightarrow> (Inr (), self', n1))
         | Inr _ \<Rightarrow> (Inl AttributeError, self, n1))"


section \<open>The ROI optimization agent (agents/roi\_optimization\_agent.py)\<close>

definition ROIOptimizationAgent_init ::
  "pyenv \<Rightarrow> string \<Rightarrow> pyval \<Rightarrow> nat \<Rightarrow> (exc + pydict) \<times> nat" where
  "ROIOptimizationAgent_init env name config n =
     (let config = (if config = PNone then PDict [] else config);
          (self, n1) = BaseAgent_init env name config n
      in case py_get config ''target_roi'' (PNum (15 / 100)) of
           Inl e \<Rightarrow> (Inl e, n1)
         | Inr target_roi \<Rightarrow>
             (Inr (set_attr (set_attr self ''target_roi'' target_roi) ''metrics'' (PList [])), n1))"

definition ROIOptimizationAgent_initialize ::
  "pyenv \<Rightarrow> pydict \<Rightarrow> nat \<Rightarrow> (exc + bool \<times> pydict) \<times> nat" where
  "ROIOptimizationAgent_initialize env self n =
     (case logger_call self [''name''] of
        Inl e \<Rightarrow> (Inl e, n)
      | Inr u \<Rightarrow> (Inr (True, self), n))"

text \<open>
  The conditional expression
  \<^verbatim>\<open>(current_revenue - current_costs) / current_costs if current_costs > 0 else 0\<close>:
  the condition is evaluated first, the quotient only when it holds.
\<close>

definition current_roi_of :: "pyval \<Rightarrow> pyval \<Rightarrow> exc + pyval" where
  "current_roi_of current_revenue current_costs =
     (case py_gt current_costs (PNum 0) of
        Inl e \<Rightarrow> Inl e
      | Inr positive \<Rightarrow>
          (if positive
           then (case py_sub current_revenue current_costs of
                   Inl e \<Rightarrow> Inl e
                 | Inr profit \<Rightarrow> py_truediv profit current_costs)
           else Inr (PNum 0)))"

text \<open>The recommendations: empty unless \<^verbatim>\<open>current_roi < target_roi\<close>.\<close>

definition recommendations_of ::
  "pyenv \<Rightarrow> pyval \<Rightarrow> pyval \<Rightarrow> pyval \<Rightarrow> pyval \<Rightarrow> exc + pyval list" where
  "recommendations_of env current_roi target_roi current_costs current_revenue =
     (case py_lt current_roi target_roi of
        Inl e \<Rightarrow> Inl e
      | Inr below \<Rightarrow>
          (if below
           then (case py_add target_roi (PNum 1) of Inl e \<Rightarrow> Inl e | Inr t1 \<Rightarrow>
                (case py_mul t1 current_costs of Inl e \<Rightarrow> Inl e | Inr needed \<Rightarrow>
                (case py_sub needed current_revenue of Inl e \<Rightarrow> Inl e | Inr revenue_gap \<Rightarrow>
                (case py_num revenue_gap of None \<Rightarrow> Inl TypeError | Some gap \<Rightarrow>
                   Inr [PStr (''Increase revenue by $'' @ format_2f env gap @
                              '' to reach target ROI''),
                        PStr ''Explore new revenue streams or optimize pricing'',
                        PStr ''Review and optimize marketing spend'']))))
           else Inr []))"

definition optimize_roi ::
  "pyenv \<Rightarrow> pydict \<Rightarrow> pyval \<Rightarrow> nat \<Rightarrow> (exc + pydict) \<times> pydict \<times> nat" where
  "optimize_roi env self data n =
     (case py_get data ''current_revenue'' (PNum 0) of
        Inl e \<Rightarrow> (Inl e, self, n) | Inr current_revenue \<Rightarrow>
     (case py_get data ''current_costs'' (PNum 0) of
        Inl e \<Rightarrow> (Inl e, self, n) | Inr current_costs \<Rightarrow>
     (case attr self ''target_roi'' of
        Inl e \<Rightarrow> (Inl e, self, n) | Inr own_target \<Rightarrow>
     (case py_get data ''target_roi'' own_target of
        Inl e \<Rightarrow> (Inl e, self, n) | Inr target_roi \<Rightarrow>
     (case current_roi_of current_revenue current_costs of
        Inl e \<Rightarrow> (Inl e, self, n) | Inr current_roi \<Rightarrow>
     (case recommendations_of env current_roi target_roi current_costs current_revenue of
        Inl e \<Rightarrow> (Inl e, self, n) | Inr recommendations \<Rightarrow>
     (case record_metric env self ''current_roi'' current_roi n of
        (Inl e, self1, n1) \<Rightarrow> (Inl e, self1, n1) | (Inr u1, self1, n1) \<Rightarrow>
     (case record_metric env self1 ''target_roi'' target_roi n1 of
        (Inl e, self2, n2) \<Rightarrow> (Inl e, self2, n2) | (Inr u2, self2, n2) \<Rightarrow>
        (Inr [(''current_roi'', current_roi),
              (''target_roi'', target_roi),
              (''revenue'', current_revenue),
              (''costs'', current_costs),
              (''recommendations'', PList recommendations),
              (''status'', PStr ''success'')], self2, n2)))))))))"

definition ROIOptimizationAgent_execute ::
  "pyenv \<Rightarrow> pydict \<Rightarrow> pydict \<Rightarrow> nat \<Rightarrow> (exc + pydict) \<times> pydict \<times> nat" where
  "ROIOptimizationAgent_execute env self task n =
     (let task_type = dict_get task ''type'' PNone;
          data = dict_get task ''data'' (PDict [])
      in if task_type = PStr ''optimize_roi''
         then optimize_roi env self data n
         else (Inl (ValueError (''Unknown task type: '' @ str_of env task_type)), self, n))"

text \<open>
  The subclasses of the registry extend the base snapshot: the right-hand side of
  \<^verbatim>\<open>metrics["metrics"][section] = {...}\<close> is evaluated, then the section is stored in
  the nested dictionary.
\<close>

definition add_section :: "pydict \<Rightarrow> string \<Rightarrow> pyval \<Rightarrow> exc + pydict" where
  "add_section snapshot section v =
     (case subscript snapshot ''metrics'' of
        Inl e \<Rightarrow> Inl e
      | Inr (PDict m) \<Rightarrow> Inr (AList.update ''metrics'' (PDict (AList.update section v m)) snapshot)
      | Inr _ \<Rightarrow> Inl TypeError)"

definition ROIOptimizationAgent_monitor ::
  "pyenv \<Rightarrow> pydict \<Rightarrow> nat \<Rightarrow> (exc + pydict) \<times> nat" where
  "ROIOptimizationAgent_monitor env self n =
     (case BaseAgent_monitor env self n of
        (Inl e, n1) \<Rightarrow> (Inl e, n1)
      | (Inr metrics, n1) \<Rightarrow>
     (case attr self ''target_roi'' of Inl e \<Rightarrow> (Inl e, n1) | Inr target_roi \<Rightarrow>
     (case attr self ''metrics'' of Inl e \<Rightarrow> (Inl e, n1) | Inr own_metrics \<Rightarrow>
     (case py_len own_metrics of Inl e \<Rightarrow> (Inl e, n1) | Inr optimization_count \<Rightarrow>
        (add_section metrics ''roi_tracking''
           (PDict [(''target_roi'', target_roi),
                   (''optimization_count'', PNum (of_nat optimization_count))]), n1)))))"

section \<open>The marketplace and analytics agents: construction and monitoring\<close>

definition MarketplaceManagerAgent_init ::
  "pyenv \<Rightarrow> string \<Rightarrow> pyval \<Rightarrow> nat \<Rightarrow> (exc + pydict) \<times> nat" where
  "MarketplaceManagerAgent_init env name config n =
     (let config = (if config = PNone then PDict [] else config);
          (self, n1) = BaseAgent_init env name config n
      in case py_get config ''commission_rate'' (PNum (10 / 100)) of
           Inl e \<Rightarrow> (Inl e, n1)
         | Inr commission_rate \<Rightarrow>
             (Inr (set_attr (set_attr self ''commission_rate'' commission_rate)
                     ''metrics'' (PList [])), n1))"

definition MarketplaceManagerAgent_initialize ::
  "pyenv \<Rightarrow> pydict \<Rightarrow> nat \<Rightarrow> (exc + bool \<times> pydict) \<times> nat" where
  "MarketplaceManagerAgent_initialize env self n =
     (case logger_call self [''name''] of
        Inl e \<Rightarrow> (Inl e, n)
      | Inr u \<Rightarrow> (Inr (True, self), n))"

definition MarketplaceManagerAgent_monitor ::
  "pyenv \<Rightarrow> pydict \<Rightarrow> nat \<Rightarrow> (exc + pydict) \<times> nat" where
  "MarketplaceManagerAgent_monitor env self n =
     (case BaseAgent_monitor env self n of
        (Inl e, n1) \<Rightarrow> (Inl e, n1)
      | (Inr metrics, n1) \<Rightarrow>
     (case attr self ''commission_rate'' of Inl e \<Rightarrow> (Inl e, n1) | Inr commission_rate \<Rightarrow>
     (case attr self ''metrics'' of Inl e \<Rightarrow> (Inl e, n1) | Inr own_metrics \<Rightarrow>
     (case py_len own_metrics of Inl e \<Rightarrow> (Inl e, n1) | Inr transaction_count \<Rightarrow>
        (add_section metrics ''marketplace''
           (PDict [(''commission_rate'', commission_rate),
                   (''transaction_count'', PNum (of_nat transaction_count))]), n1)))))"

definition AnalyticsAgent_init ::
  "pyenv \<Rightarrow> string \<Rightarrow> pyval \<Rightarrow> nat \<Rightarrow> (exc + pydict) \<times> nat" where
  "AnalyticsAgent_init env name config n =
     (let config = (if config = PNone then PDict [] else config);
          (self, n1) = BaseAgent_init env name config n
      in case py_get config ''metrics_window'' (PStr ''24h'') of
           Inl e \<Rightarrow> (Inl e, n1)
         | Inr metrics_window \<Rightarrow>
             (Inr (set_attr (set_attr self ''metrics_window'' metrics_window)
                     ''metrics_data'' (PDict [])), n1))"

definition AnalyticsAgent_initialize ::
  "pyenv \<Rightarrow> pydict \<Rightarrow> nat \<Rightarrow> (exc + bool \<times> pydict) \<times> nat" where
  "AnalyticsAgent_initialize env self n =
     (case logger_call self [''name''] of
        Inl e \<Rightarrow> (Inl e, n)
      | Inr u \<Rightarrow> (Inr (True, self), n))"

definition AnalyticsAgent_monitor ::
  "pyenv \<Rightarrow> pydict \<Rightarrow> nat \<Rightarrow> (exc + pydict) \<times> nat" where
  "AnalyticsAgent_monitor env self n =
     (case BaseAgent_monitor env self n of
        (Inl e, n1) \<Rightarrow> (Inl e, n1)
      | (Inr metrics, n1) \<Rightarrow>
     (case attr self ''metrics_window'' of Inl e \<Rightarrow> (Inl e, n1) | Inr metrics_window \<Rightarrow>
     (case attr self ''metrics_data'' of Inl e \<Rightarrow> (Inl e, n1) | Inr metrics_data \<Rightarrow>
     (case py_len metrics_data of Inl e \<Rightarrow> (Inl e, n1) | Inr metrics_count \<Rightarrow>
     (let (now, n2) = utcnow env n1 in
        (add_section metrics ''analytics''
           (PDict [(''metrics_window'', metrics_window),
                   (''metrics_count'', PNum (of_nat metrics_count)),
                   (''last_report'', PStr (isoformat env now))]), n2))))))"

section \<open>The agent factory (core/agent\_factory.py)\<close>

text \<open>
  The registry maps a type tag to a class. What the factory uses of a class is its
  constructor \<^verbatim>\<open>agent_class(name=name, config=config)\<close>, its \<^verbatim>\<open>initialize\<close> method, and
  (for \<^verbatim>\<open>hasattr\<close>) the names that the class body and its bases define. Names that
  every Python object inherits from \<^verbatim>\<open>object\<close> are not listed. The class also carries
  its \<^verbatim>\<open>monitor\<close> method, which callers invoke on the agents the factory returns.
\<close>

record pyclass =
  class_names :: "string list"
  construct :: "pyenv \<Rightarrow> string \<Rightarrow> pyval \<Rightarrow> nat \<Rightarrow> (exc + pydict) \<times> nat"
  initialize :: "pyenv \<Rightarrow> pydict \<Rightarrow> nat \<Rightarrow> (exc + bool \<times> pydict) \<times> nat"
  monitor :: "pyenv \<Rightarrow> pydict \<Rightarrow> nat \<Rightarrow> (exc + pydict) \<times> nat"

definition ROIOptimizationAgent :: pyclass where
  "ROIOptimizationAgent =
     \<lparr>class_names = BaseAgent_names @ [''_optimize_roi''],
      construct = ROIOptimizationAgent_init,
      initialize = ROIOptimizationAgent_initialize,
      monitor = ROIOptimizationAgent_monitor\<rparr>"

definition MarketplaceManagerAgent :: pyclass where
  "MarketplaceManagerAgent =
     \<lparr>class_names = BaseAgent_names @ [''_analyze_marketplace'', ''_get_marketplace_stats''],
      construct = MarketplaceManagerAgent_init,
      initialize = MarketplaceManagerAgent_initialize,
      monitor = MarketplaceManagerAgent_monitor\<rparr>"

definition AnalyticsAgent :: pyclass where
  "AnalyticsAgent =
     \<lparr>class_names = BaseAgent_names @
        [''_generate_report'', ''_analyze_data'', ''_analyze_revenue'',
         ''_analyze_user_growth'', ''_analyze_agent_performance''],
      construct = AnalyticsAgent_init,
      initialize = AnalyticsAgent_initialize,
      monitor = AnalyticsAgent_monitor\<rparr>"

text \<open>
  An agent instance: its class, its attribute dictionary, and a ghost counter of the
  calls of \<^verbatim>\<open>initialize\<close> made on it.
\<close>

record agent =
  cls :: pyclass
  attrs :: pydict
  init_calls :: nat

definition new_agent :: "pyclass \<Rightarrow> pydict \<Rightarrow> agent" where
  "new_agent c d = \<lparr>cls = c, attrs = d, init_calls = 0\<rparr>"

definition call_initialize :: "pyenv \<Rightarrow> agent \<Rightarrow> nat \<Rightarrow> (exc + bool) \<times> agent \<times> nat" where
  "call_initialize env a n =
     (case initialize (cls a) env (attrs a) n of
        (Inl e, n1) \<Rightarrow> (Inl e, a\<lparr>init_calls := Suc (init_calls a)\<rparr>, n1)
      | (Inr (success, d), n1) \<Rightarrow>
          (Inr success, a\<lparr>attrs := d, init_calls := Suc (init_calls a)\<rparr>, n1))"



text \<open>
  The world outside the factory: the number of clock reads so far, and a ghost counter
  of the constructor calls made so far.
\<close>

record world =
  tick :: nat
  ctor_calls :: nat

record factory =
  registered_agents :: "(string \<times> pyclass) list"

definition register_agent :: "factory \<Rightarrow> string \<Rightarrow> pyclass \<Rightarrow> factory" where
  "register_agent self agent_type agent_class =
     self\<lparr>registered_agents := AList.update agent_type agent_class (registered_agents self)\<rparr>"

definition AgentFactory_init :: factory where
  "AgentFactory_init =
     register_agent
       (register_agent
          (register_agent \<lparr>registered_agents = []\<rparr> ''roi_optimization'' ROIOptimizationAgent)
          ''marketplace_manager'' MarketplaceManagerAgent)
       ''analytics'' AnalyticsAgent"

text \<open>
  Every method returns the factory as it leaves it, so that what a call does to the
  registry is part of its result.
\<close>

definition create_agent ::
  "pyenv \<Rightarrow> factory \<Rightarrow> string \<Rightarrow> string \<Rightarrow> pyval \<Rightarrow> world \<Rightarrow> (exc + agent) \<times> factory \<times> world" where
  "create_agent env self agent_type name config w =
     (case map_of (registered_agents self) agent_type of
        None \<Rightarrow> (Inl (ValueError (''Unknown agent type: '' @ agent_type)), self, w)
      | Some agent_class \<Rightarrow>
          (let w1 = w\<lparr>ctor_calls := Suc (ctor_calls w)\<rparr>
           in case construct agent_class env name config (tick w1) of
                (Inl e, n1) \<Rightarrow> (Inl e, self, w1\<lparr>tick := n1\<rparr>)
              | (Inr d, n1) \<Rightarrow>
                  (case call_initialize env (new_agent agent_class d) n1 of
                     (Inl e, a, n2) \<Rightarrow> (Inl e, self, w1\<lparr>tick := n2\<rparr>)
                   | (Inr success, a, n2) \<Rightarrow>
                       (if \<not> success
                        then (Inl (RuntimeError (''Failed to initialize agent: '' @ name)),
                              self, w1\<lparr>tick := n2\<rparr>)
                        else (Inr a, self, w1\<lparr>tick := n2\<rparr>)))))"

definition get_available_agent_types :: "factory \<Rightarrow> string list" where
  "get_available_agent_types self = map fst (registered_agents self)"



section \<open>The user onboarding agent (agents/user\_onboarding\_agent.py)\<close>


















section \<open>Task dispatch in the agents\<close>

text \<open>
  Every \<^verbatim>\<open>execute\<close> branches on the task type and calls a private handler of its
  class. Apart from \<^verbatim>\<open>_optimize_roi\<close> the handlers are arguments of the model: \<open>h name\<close>
  is the handler method called \<open>name\<close>, taking the instance, the evaluated arguments
  and the clock position. What is modelled is the dispatch itself, including the
  evaluation of the arguments, which raises \<^verbatim>\<open>KeyError\<close> at the first missing key.
\<close>

type_synonym handlers =
  "string \<Rightarrow> pydict \<Rightarrow> pyval list \<Rightarrow> nat \<Rightarrow> (exc + pydict) \<times> pydict \<times> nat"

fun subscripts :: "pydict \<Rightarrow> string list \<Rightarrow> exc + pyval list" where
  "subscripts task [] = Inr []"
| "subscripts task (k # ks) =
     (case subscript task k of Inl e \<Rightarrow> Inl e | Inr v \<Rightarrow>
     (case subscripts task ks of Inl e \<Rightarrow> Inl e | Inr vs \<Rightarrow> Inr (v # vs)))"

definition call ::
  "handlers \<Rightarrow> string \<Rightarrow> pydict \<Rightarrow> exc + pyval list \<Rightarrow> nat \<Rightarrow> (exc + pydict) \<times> pydict \<times> nat" where
  "call h name self args n =
     (case args of Inl e \<Rightarrow> (Inl e, self, n) | Inr vs \<Rightarrow> h name self vs n)"

definition unknown_task_type :: pydict where
  "unknown_task_type = [(''status'', PStr ''error''), (''message'', PStr ''Unknown task type'')]"

definition MarketplaceManagerAgent_execute ::
  "pyenv \<Rightarrow> handlers \<Rightarrow> pydict \<Rightarrow> pydict \<Rightarrow> nat \<Rightarrow> (exc + pydict) \<times> pydict \<times> nat" where
  "MarketplaceManagerAgent_execute env h self task n =
     (let task_type = dict_get task ''type'' PNone;
          data = dict_get task ''data'' (PDict [])
      in if task_type = PStr ''analyze_marketplace''
         then call h ''_analyze_marketplace'' self (Inr [data]) n
         else if task_type = PStr ''get_marketplace_stats''
         then call h ''_get_marketplace_stats'' self (Inr []) n
         else (Inl (ValueError (''Unknown task type: '' @ str_of env task_type)), self, n))"

definition AnalyticsAgent_execute ::
  "pyenv \<Rightarrow> handlers \<Rightarrow> pydict \<Rightarrow> pydict \<Rightarrow> nat \<Rightarrow> (exc + pydict) \<times> pydict \<times> nat" where
  "AnalyticsAgent_execute env h self task n =
     (let task_type = dict_get task ''type'' PNone;
          data = dict_get task ''data'' (PDict [])
      in if task_type = PStr ''generate_report''
         then call h ''_generate_report'' self (Inr [data]) n
         else if task_type = PStr ''analyze_data''
         then call h ''_analyze_data'' self (Inr [data]) n
         else (Inl (ValueError (''Unknown task type: '' @ str_of env task_type)), self, n))"

definition UserOnboardingAgent_execute ::
  "handlers \<Rightarrow> pydict \<Rightarrow> pydict \<Rightarrow> nat \<Rightarrow> (exc + pydict) \<times> pydict \<times> nat" where
  "UserOnboardingAgent_execute h self task n =
     (case subscript task ''type'' of Inl e \<Rightarrow> (Inl e, self, n) | Inr task_type \<Rightarrow>
        if task_type = PStr ''start_onboarding''
        then call h ''_start_onboarding'' self
               (case subscript task ''user_id'' of
                  Inl e \<Rightarrow> Inl e
                | Inr user_id \<Rightarrow> Inr [user_id, dict_get task ''flow_type'' (PStr ''default'')]) n
        else if task_type = PStr ''track_progress''
        then call h ''_track_progress'' self (subscripts task [''user_id'', ''step'']) n
        else if task_type = PStr ''optimize_flow''
        then call h ''_optimize_flow'' self (subscripts task [''flow_type'']) n
        else (Inr unknown_task_type, self, n))"

definition LaunchStrategistAgent_execute ::
  "handlers \<Rightarrow> pydict \<Rightarrow> pydict \<Rightarrow> nat \<Rightarrow> (exc + pydict) \<times> pydict \<times> nat" where
  "LaunchStrategistAgent_execute h self task n =
     (case subscript task ''type'' of Inl e \<Rightarrow> (Inl e, self, n) | Inr task_type \<Rightarrow>
        if task_type = PStr ''phase_transition''
        then call h ''_transition_phase'' self (subscripts task [''target_phase'']) n
        else if task_type = PStr ''execute_task''
        then call h ''_execute_launch_task'' self (subscripts task [''task_name'']) n
        else if task_type = PStr ''update_strategy''
        then call h ''_update_strategy'' self (subscripts task [''updates'']) n
        else (Inr unknown_task_type, self, n))"

definition InfluencerOutreachAgent_execute ::
  "handlers \<Rightarrow> pydict \<Rightarrow> pydict \<Rightarrow> nat \<Rightarrow> (exc + pydict) \<times> pydict \<times> nat" where
  "InfluencerOutreachAgent_execute h self task n =
     (case subscript task ''type'' of Inl e \<Rightarrow> (Inl e, self, n) | Inr task_type \<Rightarrow>
        if task_type = PStr ''identify_influencers''
        then call h ''_identify_influencers'' self (subscripts task [''criteria'', ''count'']) n
        else if task_type = PStr ''create_campaign''
        then call h ''_create_campaign'' self (subscripts task [''campaign_details'']) n
        else if task_type = PStr ''track_performance''
        then call h ''_track_campaign_performance'' self (subscripts task [''campaign_id'']) n
        else (Inr unknown_task_type, self, n))"

definition DataPrivacyAgent_execute ::
  "handlers \<Rightarrow> pydict \<Rightarrow> pydict \<Rightarrow> nat \<Rightarrow> (exc + pydict) \<times> pydict \<times> nat" where
  "DataPrivacyAgent_execute h self task n =
     (case subscript task ''type'' of Inl e \<Rightarrow> (Inl e, self, n) | Inr task_type \<Rightarrow>
        if task_type = PStr ''privacy_check''
        then call h ''_check_privacy_compliance'' self
               (subscripts task [''data_type'', ''operation'']) n
        else if task_type = PStr ''handle_request''
        then call h ''_handle_privacy_request'' self
               (subscripts task [''request_type'', ''user_id'', ''parameters'']) n
        else if task_type = PStr ''audit_access''
        then call h ''_audit_data_access'' self
               (subscripts task [''resource'', ''access_type'', ''user_id'']) n
        else (Inr unknown_task_type, self, n))"

definition RevenueOptimizerAgent_execute ::
  "handlers \<Rightarrow> pydict \<Rightarrow> pydict \<Rightarrow> nat \<Rightarrow> (exc + pydict) \<times> pydict \<times> nat" where
  "RevenueOptimizerAgent_execute h self task n =
     (case subscript task ''type'' of Inl e \<Rightarrow> (Inl e, self, n) | Inr task_type \<Rightarrow>
        if task_type = PStr ''optimize_pricing''
        then call h ''_optimize_pricing'' self (subscripts task [''stream'', ''parameters'']) n
        else if task_type = PStr ''analyze_revenue''
        then call h ''_analyze_revenue'' self (subscripts task [''timeframe'']) n
        else if task_type = PStr ''implement_strategy''
        then call h ''_implement_revenue_strategy'' self (subscripts task [''strategy'']) n
        else (Inr unknown_task_type, self, n))"

definition CommunityEngagementAgent_execute ::
  "handlers \<Rightarrow> pydict \<Rightarrow> pydict \<Rightarrow> nat \<Rightarrow> (exc + pydict) \<times> pydict \<times> nat" where
  "CommunityEngagementAgent_execute h self task n =
     (case subscript task ''type'' of Inl e \<Rightarrow> (Inl e, self, n) | Inr task_type \<Rightarrow>
        if task_type = PStr ''respond_to_user''
        then call h ''_respond_to_user'' self
               (subscripts task [''platform'', ''user_id'', ''message'']) n
        else if task_type = PStr ''monitor_sentiment''
        then call h ''_monitor_sentiment'' self (subscripts task [''platform'', ''timeframe'']) n
        else if task_type = PStr ''create_event''
        then call h ''_create_community_event'' self (subscripts task [''event_details'']) n
        else (Inr unknown_task_type, self, n))"

definition ContentCreatorAgent_execute ::
  "handlers \<Rightarrow> pydict \<Rightarrow> pydict \<Rightarrow> nat \<Rightarrow> (exc + pydict) \<times> pydict \<times> nat" where
  "ContentCreatorAgent_execute h self task n =
     (case subscript task ''type'' of Inl e \<Rightarrow> (Inl e, self, n) | Inr task_type \<Rightarrow>
        if task_type = PStr ''create_content''
        then call h ''_create_content'' self (subscripts task [''content_type'', ''parameters'']) n
        else if task_type = PStr ''optimize_content''
        then call h ''_optimize_content'' self
               (subscripts task [''content_id'', ''optimization_type'']) n
        else if task_type = PStr ''schedule_content''
        then call h ''_schedule_content'' self
               (subscripts task [''content_id'', ''schedule_time'']) n
        else (Inr unknown_task_type, self, n))"

definition FeedbackManagerAgent_execute ::
  "handlers \<Rightarrow> pydict \<Rightarrow> pydict \<Rightarrow> nat \<Rightarrow> (exc + pydict) \<times> pydict \<times> nat" where
  "FeedbackManagerAgent_execute h self task n =
     (case subscript task ''type'' of Inl e \<Rightarrow> (Inl e, self, n) | Inr task_type \<Rightarrow>
        if task_type = PStr ''collect_feedback''
        then call h ''_collect_feedback'' self
               (subscripts task [''user_id'', ''feedback_type'', ''content'']) n
        else if task_type = PStr ''analyze_feedback''
        then call h ''_analyze_feedback'' self (subscripts task [''timeframe'']) n
        else if task_type = PStr ''generate_report''
        then call h ''_generate_feedback_report'' self
               (subscripts task [''report_type'', ''parameters'']) n
        else (Inr unknown_task_type, self, n))"

text \<open>
  The concrete agent classes of the repository, \<^verbatim>\<open>agent.execute(task)\<close> on an agent of
  each class, and the task types that the \<^verbatim>\<open>execute\<close> of the class names.
\<close>

datatype variant =
    ROIOptimization
  | MarketplaceManager
  | Analytics
  | UserOnboarding
  | LaunchStrategist
  | InfluencerOutreach
  | DataPrivacy
  | RevenueOptimizer
  | CommunityEngagement
  | ContentCreator
  | FeedbackManager

fun execute ::
  "variant \<Rightarrow> pyenv \<Rightarrow> handlers \<Rightarrow> pydict \<Rightarrow> pydict \<Rightarrow> nat \<Rightarrow> (exc + pydict) \<times> pydict \<times> nat" where
  "execute ROIOptimization env h = ROIOptimizationAgent_execute env"
| "execute MarketplaceManager env h = MarketplaceManagerAgent_execute env h"
| "execute Analytics env h = AnalyticsAgent_execute env h"
| "execute UserOnboarding env h = UserOnboardingAgent_execute h"
| "execute LaunchStrategist env h = LaunchStrategistAgent_execute h"
| "execute InfluencerOutreach env h = InfluencerOutreachAgent_execute h"
| "execute DataPrivacy env h = DataPrivacyAgent_execute h"
| "execute RevenueOptimizer env h = RevenueOptimizerAgent_execute h"
| "execute CommunityEngagement env h = CommunityEngagementAgent_execute h"
| "execute ContentCreator env h = ContentCreatorAgent_execute h"
| "execute FeedbackManager env h = FeedbackManagerAgent_execute h"

fun task_types :: "variant \<Rightarrow> string list" where
  "task_types ROIOptimization = [''optimize_roi'']"
| "task_types MarketplaceManager = [''analyze_marketplace'', ''get_marketplace_stats'']"
| "task_types Analytics = [''generate_report'', ''analyze_data'']"
| "task_types UserOnboarding = [''start_onboarding'', ''track_progress'', ''optimize_flow'']"
| "task_types LaunchStrategist = [''phase_transition'', ''execute_task'', ''update_strategy'']"
| "task_types InfluencerOutreach =
     [''identify_influencers'', ''create_campaign'', ''track_performance'']"
| "task_types DataPrivacy = [''privacy_check'', ''handle_request'', ''audit_access'']"
| "task_types RevenueOptimizer =
     [''optimize_pricing'', ''analyze_revenue'', ''implement_strategy'']"
| "task_types CommunityEngagement = [''respond_to_user'', ''monitor_sentiment'', ''create_event'']"
| "task_types ContentCreator = [''create_content'', ''optimize_content'', ''schedule_content'']"
| "task_types FeedbackManager = [''collect_feedback'', ''analyze_feedback'', ''generate_report'']"

text \<open>The three classes that raise on an unknown task type; the others return.\<close>

definition raises_on_unknown :: "variant \<Rightarrow> bool" where
  "raises_on_unknown v = (v = ROIOptimization \<or> v = MarketplaceManager \<or> v = Analytics)"

section \<open>A sample environment\<close>

text \<open>
  A concrete environment and starting world, used to run the model on concrete inputs:
  the clock advances by one second per read. The three text functions are stand-ins
  (\<open>str_of\<close> is right on strings and on \<^verbatim>\<open>None\<close>, every timestamp reads the same):
  every general theorem below holds for all environments.
\<close>

definition sample_env :: pyenv where
  "sample_env =
     \<lparr>clock = (\<lambda>k. 1000000 * int k),
      isoformat = (\<lambda>t. ''1970-01-01T00:00:00''),
      format_2f = (\<lambda>r. ''0.00''),
      str_of = (\<lambda>v. case v of PStr s \<Rightarrow> s | _ \<Rightarrow> ''None'')\<rparr>"

definition world0 :: world where
  "world0 = \<lparr>tick = 0, ctor_calls = 0\<rparr>"




section \<open>Properties of the factory\<close>

text \<open>
  C10. A freshly constructed factory already has the three type tags
  \<^verbatim>\<open>roi_optimization\<close>, \<^verbatim>\<open>marketplace_manager\<close> and \<^verbatim>\<open>analytics\<close> registered, each
  with its class, and \<^verbatim>\<open>get_available_agent_types\<close> returns exactly these three.
\<close>

theorem fresh_factory_types:
  "get_available_agent_types AgentFactory_init =
     [''roi_optimization'', ''marketplace_manager'', ''analytics'']
   \<and> registered_agents AgentFactory_init =
     [(''roi_optimization'', ROIOptimizationAgent),
      (''marketplace_manager'', MarketplaceManagerAgent),
      (''analytics'', AnalyticsAgent)]"
  by (simp add: get_available_agent_types_def AgentFactory_init_def register_agent_def)

text \<open>
  What \<^verbatim>\<open>create_agent\<close> does for a registered tag, in terms of the constructor and the
  \<^verbatim>\<open>initialize\<close> method of the registered class.
\<close>

lemma create_agent_registered:
  assumes "map_of (registered_agents f) t = Some c"
  shows "create_agent env f t name cfg w =
     (case construct c env name cfg (tick w) of
        (Inl e, n1) \<Rightarrow> (Inl e, f, \<lparr>tick = n1, ctor_calls = Suc (ctor_calls w)\<rparr>)
      | (Inr d, n1) \<Rightarrow>
          (case initialize c env d n1 of
             (Inl e, n2) \<Rightarrow> (Inl e, f, \<lparr>tick = n2, ctor_calls = Suc (ctor_calls w)\<rparr>)
           | (Inr (ok, d'), n2) \<Rightarrow>
               (if ok then Inr \<lparr>cls = c, attrs = d', init_calls = 1\<rparr>
                else Inl (RuntimeError (''Failed to initialize agent: '' @ name)),
                f, \<lparr>tick = n2, ctor_calls = Suc (ctor_calls w)\<rparr>)))"
  using assms
  by (simp add: create_agent_def call_initialize_def new_agent_def
           split: prod.splits sum.splits)

lemma roi_registered:
  "map_of (registered_agents AgentFactory_init) ''roi_optimization'' = Some ROIOptimizationAgent"
  by (simp add: AgentFactory_init_def register_agent_def)

lemma create_roi_agent:
  "create_agent env AgentFactory_init ''roi_optimization'' name (PDict cfg) w =
     (Inr \<lparr>cls = ROIOptimizationAgent,
           attrs = [(''name'', PStr name),
                    (''config'', PDict cfg),
                    (''created_at'', PTime (clock env (tick w))),
                    (''last_active'', PTime (clock env (Suc (tick w)))),
                    (''status'', PStr ''initialized''),
                    (''logger'', PLogger (''agent.'' @ name)),
                    (''metrics'', PList []),
                    (''target_roi'', dict_get cfg ''target_roi'' (PNum (15 / 100)))],
           init_calls = 1\<rparr>,
      AgentFactory_init,
      \<lparr>tick = Suc (Suc (tick w)), ctor_calls = Suc (ctor_calls w)\<rparr>)"
  unfolding create_agent_registered [OF roi_registered]
  by (simp add: ROIOptimizationAgent_def ROIOptimizationAgent_init_def
        ROIOptimizationAgent_initialize_def BaseAgent_init_def utcnow_def set_attr_def
        logger_call_def)



text \<open>
  The failure branch is reachable: a class whose \<^verbatim>\<open>initialize\<close> returns \<^verbatim>\<open>False\<close>,
  registered under a tag of its own, gives the \<^verbatim>\<open>RuntimeError\<close> and no agent.
\<close>

lemma create_agent_failed_initialize:
  "fst (create_agent sample_env
          (register_agent AgentFactory_init ''broken''
             (ROIOptimizationAgent\<lparr>initialize := (\<lambda>env d n. (Inr (False, d), n))\<rparr>))
          ''broken'' ''A2'' PNone world0)
     = Inl (RuntimeError ''Failed to initialize agent: A2'')"
proof -
  define broken where
    "broken = ROIOptimizationAgent\<lparr>initialize := (\<lambda>env d n. (Inr (False, d), n))\<rparr>"
  define f where "f = register_agent AgentFactory_init ''broken'' broken"
  have reg: "map_of (registered_agents f) ''broken'' = Some broken"
    by (simp add: f_def register_agent_def AgentFactory_init_def)
  have "fst (create_agent sample_env f ''broken'' ''A2'' PNone world0)
     = Inl (RuntimeError ''Failed to initialize agent: A2'')"
    unfolding create_agent_registered [OF reg]
    by (simp add: broken_def ROIOptimizationAgent_def ROIOptimizationAgent_init_def
          BaseAgent_init_def utcnow_def world0_def dict_get_def)
  then show ?thesis unfolding f_def broken_def .
qed

text \<open>
  C4. For a type tag that is not in the registry, \<^verbatim>\<open>create_agent\<close> raises the
  \<^verbatim>\<open>ValueError\<close> "Unknown agent type: t"; the registry is returned as it was and the
  world is unchanged: no constructor call was made and the clock was not read.
\<close>

theorem create_agent_unknown_type:
  assumes "t \<notin> set (get_available_agent_types f)"
  shows "create_agent env f t name cfg w =
           (Inl (ValueError (''Unknown agent type: '' @ t)), f, w)"
proof -
  from assms have "map_of (registered_agents f) t = None"
    by (simp add: get_available_agent_types_def map_of_eq_None_iff)
  then show ?thesis by (simp add: create_agent_def)
qed

theorem create_agent_unknown_type_witness:
  "''chatbot'' \<notin> set (get_available_agent_types AgentFactory_init)
   \<and> create_agent sample_env AgentFactory_init ''chatbot'' ''A1'' (PDict []) world0
       = (Inl (ValueError ''Unknown agent type: chatbot''), AgentFactory_init, world0)"
proof -
  have h: "''chatbot'' \<notin> set (get_available_agent_types AgentFactory_init)"
    by (simp add: get_available_agent_types_def AgentFactory_init_def register_agent_def)
  from create_agent_unknown_type [OF h] h show ?thesis by simp
qed



section \<open>Properties of the metric log\<close>









section \<open>Properties of specialization\<close>











section \<open>Properties of the ROI computation\<close>

lemma current_roi_of_num:
  assumes "current_roi_of rv costs = Inr v"
  shows "\<exists>x. v = PNum x"
  using assms
  by (auto simp add: current_roi_of_def py_gt_def py_sub_def py_truediv_def
           split: option.splits if_splits)



lemma recommendations_of_iff:
  assumes "recommendations_of env (PNum x) tgt costs rv = Inr recs"
  shows "\<exists>y. py_num tgt = Some y \<and> (recs \<noteq> [] \<longleftrightarrow> x < y)"
  using assms
  by (auto simp add: recommendations_of_def py_lt_def py_add_def py_mul_def py_sub_def
           split: option.splits if_splits)


lemma optimize_roi_result:
  assumes "optimize_roi env self data n = (Inr r, self', n')"
  shows "\<exists>rv costs tgt x recs.
           r = [(''current_roi'', PNum x), (''target_roi'', tgt), (''revenue'', rv),
                (''costs'', costs), (''recommendations'', PList recs),
                (''status'', PStr ''success'')]
         \<and> current_roi_of rv costs = Inr (PNum x)
         \<and> recommendations_of env (PNum x) tgt costs rv = Inr recs"
proof -
  from assms obtain rv costs tgt roi recs where
    r: "r = [(''current_roi'', roi), (''target_roi'', tgt), (''revenue'', rv),
                (''costs'', costs), (''recommendations'', PList recs),
                (''status'', PStr ''success'')]"
    and c: "current_roi_of rv costs = Inr roi"
    and rc: "recommendations_of env roi tgt costs rv = Inr recs"
    by (auto simp add: optimize_roi_def split: sum.splits prod.splits)
  from current_roi_of_num [OF c] obtain x where "roi = PNum x" ..
  with r c rc show ?thesis by blast
qed





lemma execute_returns:
  assumes "ROIOptimizationAgent_execute env self task n = (Inr r, self', n')"
  shows "optimize_roi env self (dict_get task ''data'' (PDict [])) n = (Inr r, self', n')"
  using assms by (simp add: ROIOptimizationAgent_execute_def Let_def split: if_splits)

text \<open>
  C5. The scenario: the agent that \<^verbatim>\<open>create_agent("roi_optimization", "A1",
  {"target_roi": 0.15})\<close> returns, executing the \<^verbatim>\<open>optimize_roi\<close> task with revenue
  100000, costs 80000 and target 0.15, returns a result with \<^verbatim>\<open>current_roi\<close> equal to
  (100000 - 80000) / 80000 = 0.25, \<^verbatim>\<open>status\<close> "success" and an empty recommendation
  list. In general, whenever \<^verbatim>\<open>execute\<close> returns a result, its recommendation list is
  non-empty exactly when \<^verbatim>\<open>current_roi\<close> is strictly below \<^verbatim>\<open>target_roi\<close>.
\<close>

theorem roi_scenario_and_recommendations:
  "(\<exists>a f' w' r self' n'.
      create_agent env AgentFactory_init ''roi_optimization'' ''A1''
        (PDict [(''target_roi'', PNum (15 / 100))]) w = (Inr a, f', w')
    \<and> ROIOptimizationAgent_execute env (attrs a)
        [(''type'', PStr ''optimize_roi''),
         (''data'', PDict [(''current_revenue'', PNum 100000),
                           (''current_costs'', PNum 80000),
                           (''target_roi'', PNum (15 / 100))])] (tick w') = (Inr r, self', n')
    \<and> map_of r ''current_roi'' = Some (PNum ((100000 - 80000) / 80000))
    \<and> map_of r ''current_roi'' = Some (PNum (25 / 100))
    \<and> map_of r ''status'' = Some (PStr ''success'')
    \<and> map_of r ''recommendations'' = Some (PList []))
   \<and> (ROIOptimizationAgent_execute env self task n = (Inr res, self1, n1) \<longrightarrow>
        (\<exists>x tgt y recs.
            map_of res ''current_roi'' = Some (PNum x)
          \<and> map_of res ''target_roi'' = Some tgt \<and> py_num tgt = Some y
          \<and> map_of res ''recommendations'' = Some (PList recs)
          \<and> map_of res ''status'' = Some (PStr ''success'')
          \<and> (recs \<noteq> [] \<longleftrightarrow> x < y)))"
proof (intro conjI impI)
  let ?task = "[(''type'', PStr ''optimize_roi''),
         (''data'', PDict [(''current_revenue'', PNum 100000),
                           (''current_costs'', PNum 80000),
                           (''target_roi'', PNum (15 / 100))])]"
  define a where "a = \<lparr>cls = ROIOptimizationAgent,
           attrs = [(''name'', PStr ''A1''),
                    (''config'', PDict [(''target_roi'', PNum (15 / 100))]),
                    (''created_at'', PTime (clock env (tick w))),
                    (''last_active'', PTime (clock env (Suc (tick w)))),
                    (''status'', PStr ''initialized''),
                    (''logger'', PLogger (''agent.'' @ ''A1'')),
                    (''metrics'', PList []),
                    (''target_roi'', dict_get [(''target_roi'', PNum (15 / 100))] ''target_roi''
                                      (PNum (15 / 100)))],
           init_calls = 1\<rparr>"
  have made: "create_agent env AgentFactory_init ''roi_optimization'' ''A1''
        (PDict [(''target_roi'', PNum (15 / 100))]) w
      = (Inr a, AgentFactory_init, \<lparr>tick = Suc (Suc (tick w)), ctor_calls = Suc (ctor_calls w)\<rparr>)"
    unfolding a_def by (rule create_roi_agent)
  obtain res0 s0 m0 where out:
      "ROIOptimizationAgent_execute env (attrs a) ?task (Suc (Suc (tick w))) = (res0, s0, m0)"
    by (cases "ROIOptimizationAgent_execute env (attrs a) ?task (Suc (Suc (tick w)))")
  have res0: "res0 = Inr [(''current_roi'', PNum (1 / 4)), (''target_roi'', PNum (3 / 20)),
                (''revenue'', PNum 100000), (''costs'', PNum 80000),
                (''recommendations'', PList []), (''status'', PStr ''success'')]"
    using out
    by (simp add: ROIOptimizationAgent_execute_def optimize_roi_def a_def dict_get_def
          attr_def current_roi_of_def recommendations_of_def py_gt_def py_lt_def py_sub_def
          py_truediv_def record_metric_def utcnow_def set_attr_def logger_call_def)
  show "\<exists>a f' w' r self' n'.
      create_agent env AgentFactory_init ''roi_optimization'' ''A1''
        (PDict [(''target_roi'', PNum (15 / 100))]) w = (Inr a, f', w')
    \<and> ROIOptimizationAgent_execute env (attrs a) ?task (tick w') = (Inr r, self', n')
    \<and> map_of r ''current_roi'' = Some (PNum ((100000 - 80000) / 80000))
    \<and> map_of r ''current_roi'' = Some (PNum (25 / 100))
    \<and> map_of r ''status'' = Some (PStr ''success'')
    \<and> map_of r ''recommendations'' = Some (PList [])"
    apply (rule exI [of _ a], rule exI [of _ AgentFactory_init])
    apply (rule exI [of _ "\<lparr>tick = Suc (Suc (tick w)), ctor_calls = Suc (ctor_calls w)\<rparr>"])
    apply (rule exI [of _ "[(''current_roi'', PNum (1 / 4)), (''target_roi'', PNum (3 / 20)),
                (''revenue'', PNum 100000), (''costs'', PNum 80000),
                (''recommendations'', PList []), (''status'', PStr ''success'')]"])
    apply (rule exI [of _ s0], rule exI [of _ m0])
    using made out res0 apply simp
    done
next
  assume run: "ROIOptimizationAgent_execute env self task n = (Inr res, self1, n1)"
  from optimize_roi_result [OF execute_returns [OF run]]
  obtain rv costs tgt x recs where
    r: "res = [(''current_roi'', PNum x), (''target_roi'', tgt), (''revenue'', rv),
                (''costs'', costs), (''recommendations'', PList recs),
                (''status'', PStr ''success'')]"
    and rc: "recommendations_of env (PNum x) tgt costs rv = Inr recs"
    by blast
  from recommendations_of_iff [OF rc] obtain y where
    y: "py_num tgt = Some y" "recs \<noteq> [] \<longleftrightarrow> x < y" by blast
  have "map_of res ''current_roi'' = Some (PNum x)" "map_of res ''target_roi'' = Some tgt"
    "map_of res ''recommendations'' = Some (PList recs)"
    "map_of res ''status'' = Some (PStr ''success'')"
    by (simp_all add: r)
  with y show "\<exists>x tgt y recs.
            map_of res ''current_roi'' = Some (PNum x)
          \<and> map_of res ''target_roi'' = Some tgt \<and> py_num tgt = Some y
          \<and> map_of res ''recommendations'' = Some (PList recs)
          \<and> map_of res ''status'' = Some (PStr ''success'')
          \<and> (recs \<noteq> [] \<longleftrightarrow> x < y)"
    by blast
qed


theorem roi_scenario_and_recommendations_witness:
  "\<exists>res self1 n1 recs.
      ROIOptimizationAgent_execute sample_env
        [(''name'', PStr ''A1''), (''logger'', PLogger ''agent.A1''), (''metrics'', PList []),
         (''target_roi'', PNum (15 / 100))]
        [(''type'', PStr ''optimize_roi''),
         (''data'', PDict [(''current_revenue'', PNum 100000),
                           (''current_costs'', PNum 90000)])] 2 = (Inr res, self1, n1)
    \<and> map_of res ''current_roi'' = Some (PNum (1 / 9))
    \<and> map_of res ''target_roi'' = Some (PNum (15 / 100))
    \<and> map_of res ''recommendations'' = Some (PList recs)
    \<and> recs \<noteq> []"
proof -
  let ?self = "[(''name'', PStr ''A1''), (''logger'', PLogger ''agent.A1''),
                (''metrics'', PList []), (''target_roi'', PNum (15 / 100))]"
  let ?task = "[(''type'', PStr ''optimize_roi''),
         (''data'', PDict [(''current_revenue'', PNum 100000),
                           (''current_costs'', PNum 90000)])]"
  obtain out s0 m0 where out: "ROIOptimizationAgent_execute sample_env ?self ?task 2 = (out, s0, m0)"
    by (cases "ROIOptimizationAgent_execute sample_env ?self ?task 2")
  have "\<exists>recs. out = Inr [(''current_roi'', PNum (1 / 9)), (''target_roi'', PNum (3 / 20)),
                (''revenue'', PNum 100000), (''costs'', PNum 90000),
                (''recommendations'', PList recs), (''status'', PStr ''success'')]"
    using out
    by (auto simp add: ROIOptimizationAgent_execute_def optimize_roi_def dict_get_def
          attr_def current_roi_of_def recommendations_of_def py_gt_def py_lt_def py_sub_def
          py_add_def py_mul_def py_truediv_def record_metric_def utcnow_def set_attr_def
          logger_call_def)
  then obtain recs0 where res: "out = Inr [(''current_roi'', PNum (1 / 9)),
                (''target_roi'', PNum (3 / 20)),
                (''revenue'', PNum 100000), (''costs'', PNum 90000),
                (''recommendations'', PList recs0), (''status'', PStr ''success'')]" ..
  let ?res = "[(''current_roi'', PNum (1 / 9)), (''target_roi'', PNum (3 / 20)),
                (''revenue'', PNum 100000), (''costs'', PNum 90000),
                (''recommendations'', PList recs0), (''status'', PStr ''success'')]"
  have run: "ROIOptimizationAgent_execute sample_env ?self ?task 2 = (Inr ?res, s0, m0)"
    using out res by simp
  from roi_scenario_and_recommendations [THEN conjunct2, rule_format, OF run]
  obtain x tgt y recs where
    f: "map_of ?res ''current_roi'' = Some (PNum x)"
       "map_of ?res ''target_roi'' = Some tgt" "py_num tgt = Some y"
       "map_of ?res ''recommendations'' = Some (PList recs)"
       "recs \<noteq> [] \<longleftrightarrow> x < y"
    by blast
  from f have x: "x = 1 / 9" and y: "tgt = PNum (3 / 20)" "y = 3 / 20"
    by auto
  then have lt: "x < y" by simp
  with f have ne: "recs \<noteq> []" by simp
  have g: "map_of ?res ''current_roi'' = Some (PNum (1 / 9))"
          "map_of ?res ''target_roi'' = Some (PNum (15 / 100))"
    by simp_all
  from run g f(4) ne show ?thesis by blast
qed




section \<open>Properties of task dispatch\<close>

lemma execute_unknown_raises:
  assumes "raises_on_unknown v"
      and "dict_get task ''type'' PNone = t" and "t \<notin> PStr ` set (task_types v)"
  shows "execute v env h self task n =
           (Inl (ValueError (''Unknown task type: '' @ str_of env t)), self, n)"
  using assms
  by (cases v)
     (auto simp add: raises_on_unknown_def ROIOptimizationAgent_execute_def
        MarketplaceManagerAgent_execute_def AnalyticsAgent_execute_def Let_def)

lemma execute_unknown_returns:
  assumes "\<not> raises_on_unknown v"
      and "map_of task ''type'' = Some t" and "t \<notin> PStr ` set (task_types v)"
  shows "execute v env h self task n = (Inr unknown_task_type, self, n)"
  using assms
  by (cases v)
     (auto simp add: raises_on_unknown_def subscript_def UserOnboardingAgent_execute_def
        LaunchStrategistAgent_execute_def InfluencerOutreachAgent_execute_def
        DataPrivacyAgent_execute_def RevenueOptimizerAgent_execute_def
        CommunityEngagementAgent_execute_def ContentCreatorAgent_execute_def
        FeedbackManagerAgent_execute_def)

text \<open>
  With no \<^verbatim>\<open>type\<close> key at all, the three classes of the registry raise the same
  \<^verbatim>\<open>ValueError\<close> (for \<^verbatim>\<open>None\<close>); the other classes raise \<^verbatim>\<open>KeyError\<close> at
  \<^verbatim>\<open>task["type"]\<close>.
\<close>

lemma execute_missing_type:
  assumes "map_of task ''type'' = None"
  shows "execute v env h self task n =
           (if raises_on_unknown v
            then Inl (ValueError (''Unknown task type: '' @ str_of env PNone))
            else Inl (KeyError ''type''), self, n)"
  using assms
  by (cases v)
     (auto simp add: raises_on_unknown_def dict_get_def subscript_def Let_def
        ROIOptimizationAgent_execute_def MarketplaceManagerAgent_execute_def
        AnalyticsAgent_execute_def UserOnboardingAgent_execute_def
        LaunchStrategistAgent_execute_def InfluencerOutreachAgent_execute_def
        DataPrivacyAgent_execute_def RevenueOptimizerAgent_execute_def
        CommunityEngagementAgent_execute_def ContentCreatorAgent_execute_def
        FeedbackManagerAgent_execute_def)

text \<open>
  C2. For every concrete agent class, \<^verbatim>\<open>execute\<close> on a task whose \<^verbatim>\<open>type\<close> is none of
  the task types of the class signals an unknown task type, whatever the handlers do, and
  leaves the agent and the clock untouched. The ROI, marketplace and analytics agents
  raise \<^verbatim>\<open>ValueError("Unknown task type: <type>")\<close>; the other eight return the error
  envelope \<^verbatim>\<open>{"status": "error", "message": "Unknown task type"}\<close>. A returned envelope
  never has status "success".
\<close>

theorem execute_unknown_task_type:
  assumes "map_of task ''type'' = Some t" and "t \<notin> PStr ` set (task_types v)"
  shows "\<exists>r. execute v env h self task n = (r, self, n)
           \<and> (raises_on_unknown v \<longrightarrow>
                 r = Inl (ValueError (''Unknown task type: '' @ str_of env t)))
           \<and> (\<not> raises_on_unknown v \<longrightarrow>
                 r = Inr [(''status'', PStr ''error''), (''message'', PStr ''Unknown task type'')])
           \<and> (\<forall>d. r = Inr d \<longrightarrow> map_of d ''status'' = Some (PStr ''error'')
                                \<and> map_of d ''message'' = Some (PStr ''Unknown task type''))"
proof (cases "raises_on_unknown v")
  case True
  from assms(1) have "dict_get task ''type'' PNone = t" by (simp add: dict_get_def)
  from execute_unknown_raises [OF True this assms(2)] True show ?thesis by simp
next
  case False
  from execute_unknown_returns [OF False assms] False show ?thesis
    by (simp add: unknown_task_type_def)
qed

theorem execute_unknown_task_type_witness:
  "execute UserOnboarding sample_env (\<lambda>name self args n. (Inr [(''status'', PStr ''success'')], self, n))
      [(''name'', PStr ''U1'')] [(''type'', PStr ''dance''), (''user_id'', PStr ''u7'')] 5
     = (Inr [(''status'', PStr ''error''), (''message'', PStr ''Unknown task type'')],
        [(''name'', PStr ''U1'')], 5)
   \<and> execute ROIOptimization sample_env (\<lambda>name self args n. (Inr [(''status'', PStr ''success'')], self, n))
      [(''name'', PStr ''A1'')] [(''type'', PStr ''dance''), (''data'', PDict [])] 5
     = (Inl (ValueError (''Unknown task type: '' @ str_of sample_env (PStr ''dance''))),
        [(''name'', PStr ''A1'')], 5)"
proof -
  let ?h = "\<lambda>name self args n. (Inr [(''status'', PStr ''success'')], self, n)"
  let ?t1 = "[(''type'', PStr ''dance''), (''user_id'', PStr ''u7'')]"
  let ?t2 = "[(''type'', PStr ''dance''), (''data'', PDict [])]"
  have a: "map_of ?t1 ''type'' = Some (PStr ''dance'')"
          "PStr ''dance'' \<notin> PStr ` set (task_types UserOnboarding)"
          "\<not> raises_on_unknown UserOnboarding"
    by (auto simp add: raises_on_unknown_def)
  have b: "map_of ?t2 ''type'' = Some (PStr ''dance'')"
          "PStr ''dance'' \<notin> PStr ` set (task_types ROIOptimization)"
          "raises_on_unknown ROIOptimization"
    by (auto simp add: raises_on_unknown_def)
  from execute_unknown_task_type [OF a(1,2), where env = sample_env and h = ?h
        and self = "[(''name'', PStr ''U1'')]" and n = 5] a(3)
  have 1: "execute UserOnboarding sample_env ?h [(''name'', PStr ''U1'')] ?t1 5
     = (Inr [(''status'', PStr ''error''), (''message'', PStr ''Unknown task type'')],
        [(''name'', PStr ''U1'')], 5)"
    by blast
  from execute_unknown_task_type [OF b(1,2), where env = sample_env and h = ?h
        and self = "[(''name'', PStr ''A1'')]" and n = 5] b(3)
  have 2: "execute ROIOptimization sample_env ?h [(''name'', PStr ''A1'')] ?t2 5
     = (Inl (ValueError (''Unknown task type: '' @ str_of sample_env (PStr ''dance''))),
        [(''name'', PStr ''A1'')], 5)"
    by blast
  from 1 2 show ?thesis by (rule conjI)
qed

section \<open>Properties of monitoring\<close>












end
